theory Spec2Isabelle
  imports Main
begin

section \<open>The Node.js language worker: dispatch loop, function registry, app-start context\<close>

text \<open>
  A shallow embedding of three source files of the worker:
  \<^item> \<^verbatim>\<open>src/setupEventStream.ts\<close>: the checked stream write and \<^verbatim>\<open>handleMessage\<close>;
  \<^item> \<^verbatim>\<open>src/coreApi/registerFunction.ts\<close>: \<^verbatim>\<open>registerFunction\<close> and \<^verbatim>\<open>convertToRawBinding\<close>;
  \<^item> \<^verbatim>\<open>src/startApp.ts\<close>: the context object handed to the app-start hooks.

  Exceptions are values of a sum type (\<open>Inl\<close> is the thrown error). What a function does
  to the outside world is returned as a list of effects, in the order in which they happen.
  The metadata objects that \<^verbatim>\<open>registerFunction\<close> receives and rewrites live in an explicit
  store, since caller and registry share them.
  What lives in modules outside the three files is a parameter (the handler classes, the
  protobuf verifier, \<^verbatim>\<open>terminateWorker\<close>, \<^verbatim>\<open>uuid\<close>, \<^verbatim>\<open>JSON.stringify\<close>, the steps that
  \<^verbatim>\<open>startApp\<close> awaits), so that a property holds for whatever these modules do; three small
  classes and helpers are modelled instead, each marked as such.

  \<^verbatim>\<open>handleMessage\<close> is asynchronous. One call is followed from its start to the settling of
  its promise; what other calls do to the worker while this one awaits its handler is part
  of the state that the handler returns.
\<close>

subsection \<open>Errors, logs and protocol messages\<close>

text \<open>
  A thrown JavaScript error as the dispatcher reads it: \<^verbatim>\<open>error.message\<close>,
  \<^verbatim>\<open>error.stack\<close> and the marker \<^verbatim>\<open>error.isAzureFunctionsSystemError\<close> (absent reads as
  false).
\<close>

record error =
  message :: string
  stack :: "string option"
  isAzureFunctionsSystemError :: bool

text \<open>
  Modelled from the spec: the class \<^verbatim>\<open>AzFuncSystemError\<close> of \<^verbatim>\<open>errors.ts\<close> is not among the
  source files. The spec calls what the dispatcher throws for an unknown kind, and what the
  write check throws, an "internal/system error", the class of failures that is "classified
  as a system-level error" and logged; so the constructor sets the marker. The stack that
  the runtime captures at construction is the parameter \<open>stk\<close>.
\<close>

definition AzFuncSystemError :: "string option \<Rightarrow> string \<Rightarrow> error" where
  "AzFuncSystemError stk msg =
     \<lparr>error.message = msg, stack = stk, isAzureFunctionsSystemError = True\<rparr>"

text \<open>
  Modelled from the spec: \<^verbatim>\<open>ensureErrorType\<close> of \<^verbatim>\<open>errors.ts\<close> is not among the source files.
  The spec speaks of "the error's message and trace" of what \<^verbatim>\<open>handleEvent\<close> throws; thrown
  values are error objects here, and on an error object the function returns its argument.
\<close>

definition ensureErrorType :: "error \<Rightarrow> error" where
  "ensureErrorType err = err"

datatype Level = Trace | Debug | Information | Warning | Error | Critical | NoLevel

datatype RpcLogCategory = User | System | CustomMetric

record RpcLog =
  message :: string
  level :: Level
  logCategory :: RpcLogCategory

datatype Status = Failure | Success | Cancelled

record RpcException =
  message :: string
  stackTrace :: "string option"

record StatusResult =
  status :: Status
  exception :: "RpcException option"

text \<open>
  A response object: the fields a handler fills in (\<open>payload\<close>) and the \<^verbatim>\<open>result\<close> field
  that the dispatcher assigns.
\<close>

record 'p Response =
  payload :: 'p
  result :: "StatusResult option"

text \<open>
  A content field of an outbound message: a handler's response object, or the empty object
  \<^verbatim>\<open>{}\<close> of \<^verbatim>\<open>workerStatusResponse\<close>, which has no \<^verbatim>\<open>result\<close> property.
\<close>

datatype 'p ContentValue = ResponseObject "'p Response" | EmptyObject

text \<open>
  The inbound \<^verbatim>\<open>rpc.StreamingMessage\<close>: \<^verbatim>\<open>inMsg.requestId\<close>, \<^verbatim>\<open>inMsg.content\<close> (the name of
  the content field, \<open>None\<close> for \<^verbatim>\<open>undefined\<close>) and \<^verbatim>\<open>inMsg[name]\<close> (\<open>None\<close> for null or
  undefined). The outbound \<^verbatim>\<open>rpc.IStreamingMessage\<close>: the request id and the content fields
  that have been assigned, by name.
\<close>

record 'r StreamingMessage =
  requestId :: string
  content :: "string option"
  property :: "string \<Rightarrow> 'r option"

record 'p IStreamingMessage =
  requestId :: string
  contents :: "string \<rightharpoonup> 'p ContentValue"

text \<open>
  What reaches the outside: a call of \<^verbatim>\<open>worker.log\<close>, a call of the console logger
  \<^verbatim>\<open>systemError(message, detail)\<close>, and a message handed to the stream's original
  \<^verbatim>\<open>write\<close>.
\<close>

datatype 'p effect =
    WorkerLog RpcLog
  | SystemError string string
  | Write "'p IStreamingMessage"

subsection \<open>The checked write of \<^verbatim>\<open>setupEventStream\<close>\<close>

text \<open>
  \<^verbatim>\<open>rpc.StreamingMessage.verify\<close> is the parameter \<open>vfy\<close>: \<open>None\<close> for a well-formed message,
  otherwise the description of the defect.
\<close>

definition checkWrite ::
  "string option \<Rightarrow> ('p IStreamingMessage \<Rightarrow> string option) \<Rightarrow> 'p IStreamingMessage
     \<Rightarrow> (error + unit) \<times> 'p effect list" where
  "checkWrite stk vfy msg =
     (case vfy msg of
        Some msgError \<Rightarrow>
          (Inl (AzFuncSystemError stk msgError), [SystemError ''Worker malformed message'' msgError])
      | None \<Rightarrow> (Inr (), [Write msg]))"

subsection \<open>Event handlers and the environment of the dispatcher\<close>

text \<open>
  An \<^verbatim>\<open>EventHandler\<close>: \<^verbatim>\<open>handleEvent\<close> runs on the worker state \<open>'s\<close> and returns a response
  or throws; \<^verbatim>\<open>getDefaultResponse\<close> builds a response from the request, and \<^verbatim>\<open>responseName\<close> is
  the name of a content field of the outbound message.
\<close>

record ('r, 'p, 's) EventHandler =
  responseName :: string
  handleEvent :: "'r \<Rightarrow> 's \<Rightarrow> (error + 'p Response) \<times> 's"
  getDefaultResponse :: "'r \<Rightarrow> 'p Response"

datatype HandlerClass =
    FunctionEnvironmentReloadHandler
  | FunctionLoadHandler
  | InvocationHandler
  | WorkerInitHandler
  | FunctionsMetadataHandler

text \<open>
  The modules the dispatcher imports: the constructors of the five handler classes,
  \<^verbatim>\<open>terminateWorker\<close>, the protobuf verifier, the error that \<^verbatim>\<open>nonNullProp\<close> throws for a
  property that is null or undefined, and the stack captured by a new error.
\<close>

record ('r, 'p, 's) env =
  newHandler :: "HandlerClass \<Rightarrow> ('r, 'p, 's) EventHandler"
  terminateWorker :: "'r \<Rightarrow> 's \<Rightarrow> (error + unit) \<times> 's"
  verify :: "'p IStreamingMessage \<Rightarrow> string option"
  nonNullError :: "string \<Rightarrow> error"
  newStack :: "string option"

definition nonNullProp :: "('r, 'p, 's) env \<Rightarrow> 'r StreamingMessage \<Rightarrow> string \<Rightarrow> error + 'r" where
  "nonNullProp e inMsg name =
     (case property inMsg name of
        None \<Rightarrow> Inl (nonNullError e name)
      | Some v \<Rightarrow> Inr v)"

subsection \<open>\<^verbatim>\<open>handleMessage\<close>\<close>

text \<open>
  How control leaves the \<^verbatim>\<open>try\<close> block: by a \<^verbatim>\<open>return\<close>, by reaching its end, or by a
  throw. The last two carry the local variables \<^verbatim>\<open>eventHandler\<close>, \<^verbatim>\<open>request\<close> and \<^verbatim>\<open>outMsg\<close>
  that the code after the block reads; \<open>None\<close> is \<^verbatim>\<open>undefined\<close>. (A request is an object,
  so \<^verbatim>\<open>request\<close> is truthy exactly when it has been assigned.)
\<close>

datatype ('r, 'p, 's) tryResult =
    Returned "'p effect list" 's
  | Completed "('r, 'p, 's) EventHandler" "'p IStreamingMessage" 's
  | Thrown error "('r, 'p, 's) EventHandler option" "'r option" "'p IStreamingMessage"
      "'p effect list" 's

text \<open>Lines 95 to 98: the statements after the \<^verbatim>\<open>switch\<close>, for a kind with a handler.\<close>

definition afterSwitch ::
  "('r, 'p, 's) env \<Rightarrow> 'r StreamingMessage \<Rightarrow> 'p IStreamingMessage \<Rightarrow> ('r, 'p, 's) EventHandler
     \<Rightarrow> string \<Rightarrow> 's \<Rightarrow> ('r, 'p, 's) tryResult" where
  "afterSwitch e inMsg outMsg eventHandler eventName s =
     (case nonNullProp e inMsg eventName of
        Inl err \<Rightarrow> Thrown err (Some eventHandler) None outMsg [] s
      | Inr request \<Rightarrow>
          (case handleEvent eventHandler request s of
             (Inl err, s') \<Rightarrow> Thrown err (Some eventHandler) (Some request) outMsg [] s'
           | (Inr response, s') \<Rightarrow>
               Completed eventHandler
                 (outMsg\<lparr>contents := (contents outMsg)(responseName eventHandler \<mapsto>
                    ResponseObject (response\<lparr>result :=
                      Some \<lparr>status = Success, exception = None\<rparr>\<rparr>))\<rparr>) s'))"

text \<open>The text of \<^verbatim>\<open>${eventName}\<close> in the template string of the default branch.\<close>

definition eventNameText :: "string option \<Rightarrow> string" where
  "eventNameText eventName = (case eventName of None \<Rightarrow> ''undefined'' | Some k \<Rightarrow> k)"

text \<open>Lines 54 to 98: the \<^verbatim>\<open>try\<close> block with its \<^verbatim>\<open>switch\<close>, case by case in source order.\<close>

definition tryBlock ::
  "('r, 'p, 's) env \<Rightarrow> 'r StreamingMessage \<Rightarrow> 'p IStreamingMessage \<Rightarrow> 's
     \<Rightarrow> ('r, 'p, 's) tryResult" where
  "tryBlock e inMsg outMsg s =
     (let eventName = content inMsg in
      if eventName = Some ''functionEnvironmentReloadRequest'' then
        afterSwitch e inMsg outMsg (newHandler e FunctionEnvironmentReloadHandler)
          ''functionEnvironmentReloadRequest'' s
      else if eventName = Some ''functionLoadRequest'' then
        afterSwitch e inMsg outMsg (newHandler e FunctionLoadHandler) ''functionLoadRequest'' s
      else if eventName = Some ''invocationRequest'' then
        afterSwitch e inMsg outMsg (newHandler e InvocationHandler) ''invocationRequest'' s
      else if eventName = Some ''workerInitRequest'' then
        afterSwitch e inMsg outMsg (newHandler e WorkerInitHandler) ''workerInitRequest'' s
      else if eventName = Some ''workerTerminate'' then
        (case nonNullProp e inMsg ''workerTerminate'' of
           Inl err \<Rightarrow> Thrown err None None outMsg [] s
         | Inr msg \<Rightarrow>
             (case terminateWorker e msg s of
                (Inl err, s') \<Rightarrow> Thrown err None None outMsg [] s'
              | (Inr _, s') \<Rightarrow> Returned [] s'))
      else if eventName = Some ''workerStatusRequest'' then
        (let outMsg' = outMsg\<lparr>contents := (contents outMsg)(''workerStatusResponse'' \<mapsto> EmptyObject)\<rparr>
         in case checkWrite (newStack e) (verify e) outMsg' of
              (Inl err, w) \<Rightarrow> Thrown err None None outMsg' w s
            | (Inr _, w) \<Rightarrow> Returned w s)
      else if eventName = Some ''functionsMetadataRequest'' then
        afterSwitch e inMsg outMsg (newHandler e FunctionsMetadataHandler)
          ''functionsMetadataRequest'' s
      else if eventName = Some ''closeSharedMemoryResourcesRequest''
           \<or> eventName = Some ''fileChangeEventRequest''
           \<or> eventName = Some ''functionLoadRequestCollection''
           \<or> eventName = Some ''invocationCancel''
           \<or> eventName = Some ''startStream''
           \<or> eventName = Some ''workerHeartbeat'' then
        Returned [] s
      else
        Thrown (AzFuncSystemError (newStack e)
                  (''Worker had no handler for message '' @ [CHR 0x27] @ eventNameText eventName
                     @ [CHR 0x27]))
          None None outMsg [] s)"

text \<open>Lines 101 to 107: a system error is logged through \<^verbatim>\<open>worker.log\<close>.\<close>

definition logSystemError :: "error \<Rightarrow> 'p effect list" where
  "logSystemError error =
     (if isAzureFunctionsSystemError error then
        [WorkerLog \<lparr>RpcLog.message = error.message error, level = Error, logCategory = System\<rparr>]
      else [])"

text \<open>Lines 100 to 119: the \<^verbatim>\<open>catch\<close> block; it returns the log it emits and \<^verbatim>\<open>outMsg\<close>.\<close>

definition catchBlock ::
  "error \<Rightarrow> ('r, 'p, 's) EventHandler option \<Rightarrow> 'r option \<Rightarrow> 'p IStreamingMessage
     \<Rightarrow> 'p effect list \<times> 'p IStreamingMessage" where
  "catchBlock err eventHandler request outMsg =
     (let error = ensureErrorType err;
          logged = logSystemError error
      in case (eventHandler, request) of
           (Some h, Some req) \<Rightarrow>
             (logged,
              outMsg\<lparr>contents := (contents outMsg)(responseName h \<mapsto>
                ResponseObject ((getDefaultResponse h req)\<lparr>result :=
                  Some \<lparr>status = Failure,
                        exception = Some \<lparr>RpcException.message = error.message error,
                                           stackTrace = stack error\<rparr>\<rparr>\<rparr>))\<rparr>)
         | _ \<Rightarrow> (logged, outMsg))"

text \<open>Lines 122 to 124: the final write, outside the \<^verbatim>\<open>try\<close>: a throw here rejects the promise.\<close>

definition finalWrite ::
  "('r, 'p, 's) env \<Rightarrow> ('r, 'p, 's) EventHandler option \<Rightarrow> 'p IStreamingMessage
     \<Rightarrow> (error + unit) \<times> 'p effect list" where
  "finalWrite e eventHandler outMsg =
     (case eventHandler of
        None \<Rightarrow> (Inr (), [])
      | Some _ \<Rightarrow> checkWrite (newStack e) (verify e) outMsg)"

text \<open>
  \<^verbatim>\<open>handleMessage\<close>: the outcome of the promise (\<open>Inr ()\<close> fulfilled, \<open>Inl\<close> rejected), the
  effects of this call in order, and the worker state the handler leaves.
\<close>

definition handleMessage ::
  "('r, 'p, 's) env \<Rightarrow> 'r StreamingMessage \<Rightarrow> 's \<Rightarrow> (error + unit) \<times> 'p effect list \<times> 's" where
  "handleMessage e inMsg s =
     (let outMsg = \<lparr>IStreamingMessage.requestId = StreamingMessage.requestId inMsg,
                    contents = Map.empty\<rparr>
      in case tryBlock e inMsg outMsg s of
           Returned w s' \<Rightarrow> (Inr (), w, s')
         | Completed eventHandler outMsg' s' \<Rightarrow>
             (case finalWrite e (Some eventHandler) outMsg' of (r, w) \<Rightarrow> (r, w, s'))
         | Thrown err eventHandler request outMsg' w s' \<Rightarrow>
             (case catchBlock err eventHandler request outMsg' of
                (logged, outMsg'') \<Rightarrow>
                  (case finalWrite e eventHandler outMsg'' of
                     (r, w') \<Rightarrow> (r, w @ logged @ w', s'))))"

subsection \<open>The kinds of the \<^verbatim>\<open>switch\<close>\<close>

text \<open>
  The case labels of the \<^verbatim>\<open>switch\<close>, as tables: the five kinds that get a handler (with the
  class that is instantiated), the six kinds that are listed as not yet implemented, and all
  thirteen labels.
\<close>

definition handlerTable :: "(string \<times> HandlerClass) list" where
  "handlerTable =
     [(''functionEnvironmentReloadRequest'', FunctionEnvironmentReloadHandler),
      (''functionLoadRequest'', FunctionLoadHandler),
      (''invocationRequest'', InvocationHandler),
      (''workerInitRequest'', WorkerInitHandler),
      (''functionsMetadataRequest'', FunctionsMetadataHandler)]"

definition notImplemented :: "string list" where
  "notImplemented =
     [''closeSharedMemoryResourcesRequest'', ''fileChangeEventRequest'',
      ''functionLoadRequestCollection'', ''invocationCancel'', ''startStream'',
      ''workerHeartbeat'']"

definition enumeratedKinds :: "string list" where
  "enumeratedKinds =
     map fst handlerTable @ [''workerTerminate'', ''workerStatusRequest''] @ notImplemented"

text \<open>The messages written by a run, in order.\<close>

fun written :: "'p effect list \<Rightarrow> 'p IStreamingMessage list" where
  "written [] = []"
| "written (Write m # w) = m # written w"
| "written (_ # w) = written w"

subsection \<open>A sample environment\<close>

text \<open>
  Requests and response payloads are strings, the worker state counts the handled events.
  The handler of each class echoes the request, and throws on the request \<open>''bad''\<close>; the
  verifier refuses a message without a request id.
\<close>

definition sampleError :: error where
  "sampleError = \<lparr>error.message = ''boom'', stack = Some ''at handleEvent'',
                   isAzureFunctionsSystemError = False\<rparr>"

definition sampleHandler :: "HandlerClass \<Rightarrow> (string, string, nat) EventHandler" where
  "sampleHandler c =
     \<lparr>responseName =
        (case c of
           FunctionEnvironmentReloadHandler \<Rightarrow> ''functionEnvironmentReloadResponse''
         | FunctionLoadHandler \<Rightarrow> ''functionLoadResponse''
         | InvocationHandler \<Rightarrow> ''invocationResponse''
         | WorkerInitHandler \<Rightarrow> ''workerInitResponse''
         | FunctionsMetadataHandler \<Rightarrow> ''functionMetadataResponse''),
      handleEvent =
        (\<lambda>req s. if req = ''bad'' then (Inl sampleError, s)
                  else (Inr \<lparr>payload = req, result = None\<rparr>, Suc s)),
      getDefaultResponse = (\<lambda>req. \<lparr>payload = ''default'', result = None\<rparr>)\<rparr>"

definition sampleVerify :: "string IStreamingMessage \<Rightarrow> string option" where
  "sampleVerify m =
     (if IStreamingMessage.requestId m = [] then Some ''requestId: string expected'' else None)"

definition sampleEnv :: "(string, string, nat) env" where
  "sampleEnv =
     \<lparr>newHandler = sampleHandler,
      terminateWorker = (\<lambda>msg s. (Inr (), 0)),
      verify = sampleVerify,
      nonNullError = (\<lambda>name. AzFuncSystemError None (''Expected value: '' @ name)),
      newStack = None\<rparr>"

definition sampleMessage :: "string \<Rightarrow> string option \<Rightarrow> string StreamingMessage" where
  "sampleMessage kind req =
     \<lparr>StreamingMessage.requestId = ''req-7'', content = Some kind,
      property = (\<lambda>name. if name = kind then req else None)\<rparr>"

section \<open>The function registry of \<^verbatim>\<open>registerFunction.ts\<close>\<close>

text \<open>
  The errors of the core API, by class and constructor argument: \<^verbatim>\<open>InternalException\<close> with
  its message, \<^verbatim>\<open>ReadOnlyError\<close> with the name of the property, and the \<^verbatim>\<open>TypeError\<close> that the
  runtime throws for a property access on null or undefined.
\<close>

datatype apiError = InternalException string | ReadOnlyError string | TypeError

text \<open>
  \<^verbatim>\<open>rpc.BindingInfo.Direction\<close> has the members \<^verbatim>\<open>in\<close>, \<^verbatim>\<open>out\<close> and \<^verbatim>\<open>inout\<close>. A binding has
  an optional direction and further properties \<open>'b\<close> that the worker does not look at.
\<close>

datatype Direction = Direction_in | Direction_out | Direction_inout

record 'b RpcBindingInfo =
  direction :: "Direction option"
  bindingProps :: 'b

text \<open>The object \<^verbatim>\<open>rawBinding\<close> before it is serialised.\<close>

record 'b RawBinding =
  name :: string
  direction :: "string option"
  bindingProps :: 'b

text \<open>
  A metadata object: \<^verbatim>\<open>bindings\<close> in the order of \<^verbatim>\<open>Object.entries\<close> (\<open>None\<close> when the
  property is null or undefined), the three properties that registration assigns, and the
  remaining properties \<open>'m\<close>.
\<close>

record ('b, 'm) FunctionMetadata =
  bindings :: "(string \<times> 'b RpcBindingInfo) list option"
  functionId :: "string option"
  rawBindings :: "string list option"
  scriptFile :: "string option"
  metadataProps :: 'm

text \<open>
  Metadata objects live in a store and are passed by reference: \<^verbatim>\<open>registerFunction\<close> writes
  into the object of its caller and puts that same object into the registry. A reference
  that the store does not map is null or undefined.
\<close>

type_synonym reference = nat

type_synonym ('b, 'm) store = "reference \<rightharpoonup> ('b, 'm) FunctionMetadata"

record 'c RegisteredFunction =
  metadata :: reference
  callback :: 'c

text \<open>
  The part of the \<^verbatim>\<open>WorkerChannel\<close> that the two files read and write: the indexing flag,
  the registry \<^verbatim>\<open>channel.functions\<close>, and the two objects of hook data.
\<close>

record ('c, 'd) WorkerChannel =
  hasIndexedFunctions :: bool
  "functions" :: "string \<rightharpoonup> 'c RegisteredFunction"
  appHookData :: 'd
  appLevelOnlyHookData :: 'd

text \<open>
  Modelled from the spec: the class \<^verbatim>\<open>Disposable\<close> of \<^verbatim>\<open>Disposable.ts\<close> is not among the
  source files. The spec calls the returned object a disposal capability whose invocation
  fails after indexing and "otherwise removes the entry": \<open>dispose\<close> runs the function the
  object was constructed with.
\<close>

datatype 'ch Disposable = Disposable "'ch \<Rightarrow> apiError + 'ch"

fun dispose :: "'ch Disposable \<Rightarrow> 'ch \<Rightarrow> apiError + 'ch" where
  "dispose (Disposable callOnDispose) channel = callOnDispose channel"

text \<open>
  \<^verbatim>\<open>convertToRawBinding\<close>: the spread of the binding with the name added, the \<^verbatim>\<open>switch\<close> on
  the direction (no default branch: an absent direction stays absent), and
  \<^verbatim>\<open>JSON.stringify\<close>, the parameter \<open>stringify\<close>, which returns the text or throws.
\<close>

definition rawBindingObject :: "string \<Rightarrow> 'b RpcBindingInfo \<Rightarrow> 'b RawBinding" where
  "rawBindingObject name' binding =
     \<lparr>RawBinding.name = name',
      direction =
        (case RpcBindingInfo.direction binding of
           Some Direction_in \<Rightarrow> Some ''in''
         | Some Direction_out \<Rightarrow> Some ''out''
         | Some Direction_inout \<Rightarrow> Some ''inout''
         | None \<Rightarrow> None),
      bindingProps = RpcBindingInfo.bindingProps binding\<rparr>"

definition convertToRawBinding ::
  "('b RawBinding \<Rightarrow> apiError + string) \<Rightarrow> string \<Rightarrow> 'b RpcBindingInfo \<Rightarrow> apiError + string" where
  "convertToRawBinding stringify name' binding = stringify (rawBindingObject name' binding)"

text \<open>
  \<^verbatim>\<open>Array.prototype.map\<close> with a function that may throw: from left to right, and the first
  throw ends it.
\<close>

fun mapEntries :: "('a \<Rightarrow> apiError + 'r) \<Rightarrow> 'a list \<Rightarrow> apiError + 'r list" where
  "mapEntries f [] = Inr []"
| "mapEntries f (x # xs) =
     (case f x of
        Inl err \<Rightarrow> Inl err
      | Inr y \<Rightarrow> (case mapEntries f xs of Inl err \<Rightarrow> Inl err | Inr ys \<Rightarrow> Inr (y # ys)))"

text \<open>
  Lines 33 to 39: the function given to the \<^verbatim>\<open>Disposable\<close>, closed over \<^verbatim>\<open>functionId\<close>.
  (A variable that shares its name with a property carries a prime.)
\<close>

definition disposeRegistration ::
  "string \<Rightarrow> ('c, 'd) WorkerChannel \<Rightarrow> apiError + ('c, 'd) WorkerChannel" where
  "disposeRegistration functionId' channel =
     (if hasIndexedFunctions channel then
        Inl (InternalException ''A function can only be disposed during app startup.'')
      else Inr (channel\<lparr>functions := (functions channel)(functionId' := None)\<rparr>))"

text \<open>
  \<^verbatim>\<open>registerFunction\<close>, statement by statement. The value that \<^verbatim>\<open>uuid()\<close> returns in this call
  is the argument \<open>uuid\<close>; \<open>metadata'\<close> is the reference to the caller's object, and
  \<^verbatim>\<open>rpcMetadata\<close> is the same reference, so that lines 22, 25 and 30 write into the caller's
  object and line 31 stores that object. The result is what the call returns or throws,
  with the channel and the store as the call leaves them: a throw keeps what was written
  before it. \<^verbatim>\<open>Object.entries\<close> throws for \<^verbatim>\<open>bindings\<close> null or undefined, the assignment of line
  22 for \<^verbatim>\<open>metadata\<close> null or undefined.
\<close>

definition registerFunction ::
  "('b RawBinding \<Rightarrow> apiError + string) \<Rightarrow> string \<Rightarrow> ('c, 'd) WorkerChannel \<Rightarrow> ('b, 'm) store
     \<Rightarrow> reference \<Rightarrow> 'c
     \<Rightarrow> (apiError + ('c, 'd) WorkerChannel Disposable) \<times> ('c, 'd) WorkerChannel \<times> ('b, 'm) store" where
  "registerFunction stringify uuid channel store metadata' callback' =
     (if hasIndexedFunctions channel then
        (Inl (InternalException ''A function can only be registered during app startup.''),
         channel, store)
      else
        let functionId' = uuid;
            rpcMetadata = metadata'
        in case store rpcMetadata of
             None \<Rightarrow> (Inl TypeError, channel, store)
           | Some obj \<Rightarrow>
               (let obj1 = obj\<lparr>functionId := Some functionId'\<rparr>;
                    store1 = store(rpcMetadata \<mapsto> obj1)
                in (case bindings obj1 of
                      None \<Rightarrow> (Inl TypeError, channel, store1)
                    | Some entries \<Rightarrow>
                        (case mapEntries
                                (\<lambda>(name', binding). convertToRawBinding stringify name' binding)
                                entries of
                           Inl err \<Rightarrow> (Inl err, channel, store1)
                         | Inr raw \<Rightarrow>
                             (let obj2 = obj1\<lparr>rawBindings := Some raw\<rparr>;
                                  obj3 = obj2\<lparr>scriptFile := Some ''n/a''\<rparr>;
                                  store3 = store1(rpcMetadata \<mapsto> obj3);
                                  registered = \<lparr>metadata = rpcMetadata, callback = callback'\<rparr>
                              in (Inr (Disposable (disposeRegistration functionId')),
                                  channel\<lparr>functions :=
                                    (functions channel)(functionId' \<mapsto> registered)\<rparr>,
                                  store3))))))"

text \<open>
  A series of calls of \<^verbatim>\<open>registerFunction\<close> on the same channel, each with the value its
  \<^verbatim>\<open>uuid()\<close> returns, the reference to its metadata and its callback; the first throw ends
  the series.
\<close>

fun registerAll ::
  "('b RawBinding \<Rightarrow> apiError + string) \<Rightarrow> (string \<times> reference \<times> 'c) list
     \<Rightarrow> ('c, 'd) WorkerChannel \<Rightarrow> ('b, 'm) store
     \<Rightarrow> (apiError + ('c, 'd) WorkerChannel Disposable list) \<times> ('c, 'd) WorkerChannel \<times> ('b, 'm) store" where
  "registerAll stringify [] channel store = (Inr [], channel, store)"
| "registerAll stringify ((uuid, metadata', callback') # calls) channel store =
     (case registerFunction stringify uuid channel store metadata' callback' of
        (Inl err, channel', store') \<Rightarrow> (Inl err, channel', store')
      | (Inr token, channel', store') \<Rightarrow>
          (case registerAll stringify calls channel' store' of
             (Inl err, channel'', store'') \<Rightarrow> (Inl err, channel'', store'')
           | (Inr tokens, channel'', store'') \<Rightarrow> (Inr (token # tokens), channel'', store'')))"

text \<open>
  Reading \<^verbatim>\<open>channel.functions[id].metadata\<close>: the entry of the registry, and the object its
  reference points to now.
\<close>

definition storedMetadata ::
  "('c, 'd) WorkerChannel \<times> ('b, 'm) store \<Rightarrow> string \<Rightarrow> ('b, 'm) FunctionMetadata option" where
  "storedMetadata w k =
     (case functions (fst w) k of None \<Rightarrow> None | Some f \<Rightarrow> snd w (metadata f))"

text \<open>
  A metadata object that registration can process: the reference points to an object, its
  \<^verbatim>\<open>bindings\<close> can be listed, and every raw binding can be serialised.
\<close>

definition registrable :: "('b RawBinding \<Rightarrow> apiError + string) \<Rightarrow> ('b, 'm) store \<Rightarrow> reference \<Rightarrow> bool" where
  "registrable stringify store r =
     (case store r of
        None \<Rightarrow> False
      | Some obj \<Rightarrow>
          (case bindings obj of
             None \<Rightarrow> False
           | Some entries \<Rightarrow>
               list_all (\<lambda>(name', binding). \<not> isl (convertToRawBinding stringify name' binding))
                 entries))"

section \<open>The app-start context of \<^verbatim>\<open>startApp.ts\<close>\<close>

text \<open>
  The object literal \<^verbatim>\<open>appStartContext\<close>: two accessor properties, each a getter that reads
  the channel when it is called and a setter, and the data property
  \<^verbatim>\<open>functionAppDirectory\<close>.
\<close>

record ('d, 'v, 'ch) AppStartContext =
  get_hookData :: "'ch \<Rightarrow> 'd"
  set_hookData :: "'v \<Rightarrow> 'ch \<Rightarrow> apiError + 'ch"
  get_appHookData :: "'ch \<Rightarrow> 'd"
  set_appHookData :: "'v \<Rightarrow> 'ch \<Rightarrow> apiError + 'ch"
  functionAppDirectory :: string

definition appStartContext ::
  "string \<Rightarrow> ('d, 'v, ('c, 'd) WorkerChannel) AppStartContext" where
  "appStartContext dir =
     \<lparr>get_hookData = (\<lambda>channel. appLevelOnlyHookData channel),
      set_hookData = (\<lambda>obj channel. Inl (ReadOnlyError ''hookData'')),
      get_appHookData = (\<lambda>channel. appHookData channel),
      set_appHookData = (\<lambda>obj channel. Inl (ReadOnlyError ''appHookData'')),
      functionAppDirectory = dir\<rparr>"

text \<open>
  \<^verbatim>\<open>startApp\<close>: \<^verbatim>\<open>channel.updatePackageJson\<close>, then \<^verbatim>\<open>loadEntryPointFile\<close>, then the context is
  built and passed to \<^verbatim>\<open>channel.executeHooks\<close>. The three awaited steps are parameters:
  whatever they do to the channel (read the package file, load the entry point files and log,
  run the hooks), each either returns or throws, and a throw ends \<^verbatim>\<open>startApp\<close>.
\<close>

definition startApp ::
  "(string \<Rightarrow> ('c, 'd) WorkerChannel \<Rightarrow> ('e + unit) \<times> ('c, 'd) WorkerChannel)
     \<Rightarrow> (string \<Rightarrow> ('c, 'd) WorkerChannel
           \<Rightarrow> ('e + unit) \<times> ('c, 'd) WorkerChannel)
     \<Rightarrow> (string \<Rightarrow> ('d, 'v, ('c, 'd) WorkerChannel) AppStartContext
           \<Rightarrow> ('c, 'd) WorkerChannel
           \<Rightarrow> ('e + unit) \<times> ('c, 'd) WorkerChannel)
     \<Rightarrow> string \<Rightarrow> ('c, 'd) WorkerChannel
     \<Rightarrow> ('e + unit) \<times> ('c, 'd) WorkerChannel" where
  "startApp updatePackageJson loadEntryPointFile executeHooks dir channel =
     (case updatePackageJson dir channel of
        (Inl err, channel1) \<Rightarrow> (Inl err, channel1)
      | (Inr _, channel1) \<Rightarrow>
          (case loadEntryPointFile dir channel1 of
             (Inl err, channel2) \<Rightarrow> (Inl err, channel2)
           | (Inr _, channel2) \<Rightarrow>
               executeHooks ''appStart'' (appStartContext dir) channel2))"

subsection \<open>A sample registry\<close>

text \<open>
  A channel before indexing with an empty registry, a serialiser that refuses a binding
  named \<open>''cyclic''\<close>, and a store with four metadata objects: two that can be registered, one
  without \<^verbatim>\<open>bindings\<close>, and one with a binding that cannot be serialised.
\<close>

definition sampleChannel :: "(nat, string list) WorkerChannel" where
  "sampleChannel =
     \<lparr>hasIndexedFunctions = False, functions = Map.empty,
      appHookData = [''shared''], appLevelOnlyHookData = [''app only'']\<rparr>"

definition sampleStringify :: "unit RawBinding \<Rightarrow> apiError + string" where
  "sampleStringify rb =
     (if RawBinding.name rb = ''cyclic'' then Inl TypeError
      else Inr (RawBinding.name rb @ '':''
                  @ (case RawBinding.direction rb of None \<Rightarrow> ''-'' | Some d \<Rightarrow> d)))"

definition sampleMetadata :: "string \<Rightarrow> (unit, string) FunctionMetadata" where
  "sampleMetadata fname =
     \<lparr>bindings = Some
        [(''req'', \<lparr>RpcBindingInfo.direction = Some Direction_in, bindingProps = ()\<rparr>),
         (''res'', \<lparr>RpcBindingInfo.direction = Some Direction_out, bindingProps = ()\<rparr>),
         (''doc'', \<lparr>RpcBindingInfo.direction = Some Direction_inout, bindingProps = ()\<rparr>)],
      functionId = None, rawBindings = None, scriptFile = None, metadataProps = fname\<rparr>"

definition sampleStore :: "(unit, string) store" where
  "sampleStore =
     [0 \<mapsto> sampleMetadata ''f'',
      1 \<mapsto> sampleMetadata ''g'',
      2 \<mapsto> (sampleMetadata ''h'')\<lparr>bindings := None\<rparr>,
      3 \<mapsto> (sampleMetadata ''k'')\<lparr>bindings := Some
             [(''cyclic'', \<lparr>RpcBindingInfo.direction = None, bindingProps = ()\<rparr>)]\<rparr>]"

definition sampleCalls :: "(string \<times> reference \<times> nat) list" where
  "sampleCalls = [(''id-1'', 0, 1), (''id-2'', 1, 2)]"

text \<open>
  Two series that register twice: the same object under two identifiers, and two objects
  under one identifier. And the channel and store after object 0 has been registered under
  \<open>''id-1''\<close>.
\<close>

definition aliasedCalls :: "(string \<times> reference \<times> nat) list" where
  "aliasedCalls = [(''id-1'', 0, 1), (''id-2'', 0, 2)]"

definition repeatedIdCalls :: "(string \<times> reference \<times> nat) list" where
  "repeatedIdCalls = [(''id-1'', 0, 1), (''id-1'', 1, 2)]"

definition sampleRegistered :: "(nat, string list) WorkerChannel \<times> (unit, string) store" where
  "sampleRegistered = snd (registerFunction sampleStringify ''id-1'' sampleChannel sampleStore 0 1)"

text \<open>A hook runner with one hook, which assigns to \<^verbatim>\<open>context.hookData\<close>.\<close>

definition sampleExecuteHooks ::
  "string \<Rightarrow> (string list, string list, (nat, string list) WorkerChannel) AppStartContext
     \<Rightarrow> (nat, string list) WorkerChannel
     \<Rightarrow> (apiError + unit) \<times> (nat, string list) WorkerChannel" where
  "sampleExecuteHooks stage ctx channel =
     (case set_hookData ctx [''hello'', ''world''] channel of
        Inl err \<Rightarrow> (Inl err, channel)
      | Inr channel' \<Rightarrow> (Inr (), channel'))"

section \<open>Properties of the dispatch loop\<close>

subsection \<open>The paths through the \<^verbatim>\<open>switch\<close>\<close>

lemma handlerTable_cases:
  assumes "map_of handlerTable k = Some c"
  shows "k = ''functionEnvironmentReloadRequest'' \<and> c = FunctionEnvironmentReloadHandler
       \<or> k = ''functionLoadRequest'' \<and> c = FunctionLoadHandler
       \<or> k = ''invocationRequest'' \<and> c = InvocationHandler
       \<or> k = ''workerInitRequest'' \<and> c = WorkerInitHandler
       \<or> k = ''functionsMetadataRequest'' \<and> c = FunctionsMetadataHandler"
proof -
  from assms have "(k, c) \<in> set handlerTable" by (rule map_of_SomeD)
  then show ?thesis unfolding handlerTable_def by simp
qed

lemma tryBlock_handler:
  assumes "content inMsg = Some k" and "map_of handlerTable k = Some c"
  shows "tryBlock e inMsg outMsg s = afterSwitch e inMsg outMsg (newHandler e c) k s"
  using handlerTable_cases [OF assms(2)] assms(1)
  by (elim disjE conjE) (simp_all add: tryBlock_def)

lemma tryBlock_unknown:
  assumes "content inMsg \<notin> Some ` set enumeratedKinds"
  shows "tryBlock e inMsg outMsg s =
           Thrown (AzFuncSystemError (newStack e)
                     (''Worker had no handler for message '' @ [CHR 0x27]
                        @ eventNameText (content inMsg) @ [CHR 0x27]))
             None None outMsg [] s"
  using assms
  by (simp add: tryBlock_def enumeratedKinds_def handlerTable_def notImplemented_def image_iff)

lemma tryBlock_status:
  assumes "content inMsg = Some ''workerStatusRequest''"
  shows "tryBlock e inMsg outMsg s =
     (let outMsg' = outMsg\<lparr>contents := (contents outMsg)(''workerStatusResponse'' \<mapsto> EmptyObject)\<rparr>
      in case checkWrite (newStack e) (verify e) outMsg' of
           (Inl err, w) \<Rightarrow> Thrown err None None outMsg' w s
         | (Inr _, w) \<Rightarrow> Returned w s)"
  using assms by (simp add: tryBlock_def)

lemma tryBlock_terminate:
  assumes "content inMsg = Some ''workerTerminate''"
  shows "tryBlock e inMsg outMsg s =
     (case nonNullProp e inMsg ''workerTerminate'' of
        Inl err \<Rightarrow> Thrown err None None outMsg [] s
      | Inr msg \<Rightarrow>
          (case terminateWorker e msg s of
             (Inl err, s') \<Rightarrow> Thrown err None None outMsg [] s'
           | (Inr _, s') \<Rightarrow> Returned [] s'))"
  using assms by (simp add: tryBlock_def)

subsection \<open>What a run writes\<close>

lemma written_append: "written (a @ b) = written a @ written b"
  by (induction a rule: written.induct) simp_all

lemma written_logSystemError: "written (logSystemError err) = []"
  by (simp add: logSystemError_def)

lemma written_checkWrite:
  "written (snd (checkWrite stk vfy msg)) = (if vfy msg = None then [msg] else [])"
  by (simp add: checkWrite_def split: option.split)

lemma checkWrite_Inr:
  "checkWrite stk vfy msg = (Inr u, w) \<Longrightarrow> w = [Write msg] \<and> vfy msg = None"
  by (cases "vfy msg") (simp_all add: checkWrite_def)

lemma checkWrite_Inl: "checkWrite stk vfy msg = (Inl err, w) \<Longrightarrow> written w = []"
  by (cases "vfy msg") (auto simp add: checkWrite_def)

lemma afterSwitch_not_Returned: "afterSwitch e inMsg outMsg h k s \<noteq> Returned w s'"
  by (simp add: afterSwitch_def split: sum.split prod.split)

lemma afterSwitch_Thrown:
  "afterSwitch e inMsg outMsg h k s = Thrown err eh rq out' w s' \<Longrightarrow> w = []"
  by (simp add: afterSwitch_def split: sum.splits prod.splits)

lemma afterSwitch_requestId:
  "(case afterSwitch e inMsg outMsg h k s of
      Returned w s' \<Rightarrow>
        (\<forall>m \<in> set (written w). IStreamingMessage.requestId m = IStreamingMessage.requestId outMsg)
    | Completed h' out' s' \<Rightarrow> IStreamingMessage.requestId out' = IStreamingMessage.requestId outMsg
    | Thrown err eh rq out' w s' \<Rightarrow>
        IStreamingMessage.requestId out' = IStreamingMessage.requestId outMsg \<and> written w = [])"
  by (simp add: afterSwitch_def split: sum.split prod.split)

lemma tryBlock_requestId:
  "(case tryBlock e inMsg outMsg s of
      Returned w s' \<Rightarrow>
        (\<forall>m \<in> set (written w). IStreamingMessage.requestId m = IStreamingMessage.requestId outMsg)
    | Completed h' out' s' \<Rightarrow> IStreamingMessage.requestId out' = IStreamingMessage.requestId outMsg
    | Thrown err eh rq out' w s' \<Rightarrow>
        IStreamingMessage.requestId out' = IStreamingMessage.requestId outMsg \<and> written w = [])"
  unfolding tryBlock_def Let_def
  by (simp add: afterSwitch_requestId checkWrite_def nonNullProp_def
           split: sum.split prod.split option.split)

lemma catchBlock_requestId:
  "IStreamingMessage.requestId (snd (catchBlock err eh rq out)) = IStreamingMessage.requestId out"
  by (simp add: catchBlock_def Let_def split: option.split)

lemma catchBlock_written: "written (fst (catchBlock err eh rq out)) = []"
  by (simp add: catchBlock_def Let_def written_logSystemError split: option.split)

lemma finalWrite_written:
  "m \<in> set (written (snd (finalWrite e eh out))) \<Longrightarrow> m = out"
  by (simp add: finalWrite_def written_checkWrite split: option.splits if_splits)

lemma tryBlock_Returned_verified:
  assumes "tryBlock e inMsg outMsg s = Returned w s'" and "m \<in> set (written w)"
  shows "verify e m = None"
proof (cases "content inMsg = Some ''workerStatusRequest''")
  case True
  with assms(1) obtain u where
    "checkWrite (newStack e) (verify e)
       (outMsg\<lparr>contents := (contents outMsg)(''workerStatusResponse'' \<mapsto> EmptyObject)\<rparr>) = (Inr u, w)"
    by (auto simp: tryBlock_def Let_def split: prod.splits sum.splits)
  from checkWrite_Inr [OF this] assms(2) show ?thesis by simp
next
  case False
  with assms(1) have "w = []"
    by (simp add: tryBlock_def Let_def afterSwitch_not_Returned
          split: if_splits sum.splits prod.splits)
  with assms(2) show ?thesis by simp
qed

lemma tryBlock_Thrown_written:
  assumes "tryBlock e inMsg outMsg s = Thrown err eh rq out' w s'"
  shows "written w = []"
proof (cases "content inMsg = Some ''workerStatusRequest''")
  case True
  with assms have
    "checkWrite (newStack e) (verify e)
       (outMsg\<lparr>contents := (contents outMsg)(''workerStatusResponse'' \<mapsto> EmptyObject)\<rparr>) = (Inl err, w)"
    by (auto simp: tryBlock_def Let_def split: prod.splits sum.splits)
  from checkWrite_Inl [OF this] show ?thesis .
next
  case False
  with assms have "w = []"
    by (auto simp add: tryBlock_def Let_def dest: afterSwitch_Thrown
          split: if_splits sum.splits prod.splits)
  then show ?thesis by simp
qed

lemma finalWrite_verified:
  "m \<in> set (written (snd (finalWrite e eh out))) \<Longrightarrow> verify e m = None"
  by (simp add: finalWrite_def written_checkWrite split: option.splits if_splits)

lemma handleMessage_verified:
  assumes "m \<in> set (written (fst (snd (handleMessage e inMsg s))))"
  shows "verify e m = None"
proof -
  let ?out = "\<lparr>IStreamingMessage.requestId = StreamingMessage.requestId inMsg, contents = Map.empty\<rparr>"
  show ?thesis
  proof (cases "tryBlock e inMsg ?out s")
    case (Returned w s')
    with assms have "m \<in> set (written w)" by (simp add: handleMessage_def)
    with Returned show ?thesis by (rule tryBlock_Returned_verified)
  next
    case (Completed h out' s')
    with assms have "m \<in> set (written (snd (finalWrite e (Some h) out')))"
      by (simp add: handleMessage_def split: prod.splits)
    then show ?thesis by (rule finalWrite_verified)
  next
    case (Thrown err eh rq out' w s')
    then have w: "written w = []" by (rule tryBlock_Thrown_written)
    from assms Thrown w
    have "m \<in> set (written (snd (finalWrite e eh (snd (catchBlock err eh rq out')))))"
      using catchBlock_written [where err=err and eh=eh and rq=rq and out="out'"]
      by (simp add: handleMessage_def written_append split: prod.splits)
    then show ?thesis by (rule finalWrite_verified)
  qed
qed

lemma handleMessage_status:
  assumes "content inMsg = Some ''workerStatusRequest''"
  shows "handleMessage e inMsg s =
          (Inr (),
           (case verify e \<lparr>IStreamingMessage.requestId = StreamingMessage.requestId inMsg,
                          contents = [''workerStatusResponse'' \<mapsto> EmptyObject]\<rparr> of
              None \<Rightarrow> [Write \<lparr>IStreamingMessage.requestId = StreamingMessage.requestId inMsg,
                          contents = [''workerStatusResponse'' \<mapsto> EmptyObject]\<rparr>]
            | Some msgError \<Rightarrow>
                [SystemError ''Worker malformed message'' msgError,
                 WorkerLog \<lparr>RpcLog.message = msgError, level = Error, logCategory = System\<rparr>]),
           s)"
  by (simp add: handleMessage_def tryBlock_status [OF assms] checkWrite_def catchBlock_def
        ensureErrorType_def logSystemError_def AzFuncSystemError_def finalWrite_def
      split: option.split)

lemma handleMessage_terminate_missing:
  assumes "content inMsg = Some ''workerTerminate''"
    and "property inMsg ''workerTerminate'' = None"
  shows "handleMessage e inMsg s = (Inr (), logSystemError (nonNullError e ''workerTerminate''), s)"
  using assms(2)
  by (simp add: handleMessage_def tryBlock_terminate [OF assms(1)] nonNullProp_def catchBlock_def
        ensureErrorType_def finalWrite_def)

lemma handleMessage_terminate:
  assumes "content inMsg = Some ''workerTerminate''"
    and "property inMsg ''workerTerminate'' = Some msg"
    and "terminateWorker e msg s = (r, s')"
  shows "handleMessage e inMsg s =
           (Inr (), (case r of Inl err \<Rightarrow> logSystemError err | Inr _ \<Rightarrow> []), s')"
  using assms(2,3)
  by (simp add: handleMessage_def tryBlock_terminate [OF assms(1)] nonNullProp_def catchBlock_def
        ensureErrorType_def finalWrite_def split: sum.split)

lemma handleMessage_terminate_written:
  assumes "content inMsg = Some ''workerTerminate''"
  shows "written (fst (snd (handleMessage e inMsg s))) = []"
proof (cases "property inMsg ''workerTerminate''")
  case None
  then show ?thesis
    by (simp add: handleMessage_terminate_missing [OF assms] written_logSystemError)
next
  case (Some msg)
  obtain r s' where t: "terminateWorker e msg s = (r, s')" by (cases "terminateWorker e msg s")
  show ?thesis
    by (simp add: handleMessage_terminate [OF assms Some t] written_logSystemError split: sum.split)
qed

subsection \<open>Handled kinds\<close>

text \<open>
  C1. Take a message whose content kind has a handler and whose content field is present.
  If \<^verbatim>\<open>handleEvent\<close> throws, the message that the dispatcher hands to the stream carries, under
  the handler's response name, the handler's default response with \<^verbatim>\<open>result.status\<close> Failure,
  \<^verbatim>\<open>exception.message\<close> the message of the error and \<^verbatim>\<open>exception.stackTrace\<close> its stack. If
  \<^verbatim>\<open>handleEvent\<close> returns a response, the message carries that response with
  \<^verbatim>\<open>result.status\<close> Success. A system error is logged through \<^verbatim>\<open>worker.log\<close> first. The
  message is written when the verifier accepts it; when it does not, the checked write logs,
  throws, and the promise is rejected.
\<close>

theorem handler_outcome_reported:
  fixes e :: "('r, 'p, 's) env"
  assumes "content inMsg = Some k" and "map_of handlerTable k = Some c"
    and "property inMsg k = Some request"
  defines "h \<equiv> newHandler e c"
  defines "send \<equiv> \<lambda>logged outMsg s'.
    (case verify e outMsg of
       None \<Rightarrow> (Inr (), logged @ [Write outMsg], s')
     | Some msgError \<Rightarrow>
         (Inl (AzFuncSystemError (newStack e) msgError),
          logged @ [SystemError ''Worker malformed message'' msgError], s'))"
  shows
    "(\<forall>err s'. handleEvent h request s = (Inl err, s') \<longrightarrow>
        handleMessage e inMsg s =
          send (logSystemError err)
            \<lparr>IStreamingMessage.requestId = StreamingMessage.requestId inMsg,
             contents = [responseName h \<mapsto>
               ResponseObject ((getDefaultResponse h request)\<lparr>result :=
                 Some \<lparr>status = Failure,
                       exception = Some \<lparr>RpcException.message = error.message err,
                                          stackTrace = stack err\<rparr>\<rparr>\<rparr>)]\<rparr> s')
     \<and> (\<forall>response s'. handleEvent h request s = (Inr response, s') \<longrightarrow>
        handleMessage e inMsg s =
          send []
            \<lparr>IStreamingMessage.requestId = StreamingMessage.requestId inMsg,
             contents = [responseName h \<mapsto>
               ResponseObject (response\<lparr>result :=
                 Some \<lparr>status = Success, exception = None\<rparr>\<rparr>)]\<rparr> s')"
  using assms(3)
  by (simp add: h_def send_def handleMessage_def tryBlock_handler [OF assms(1,2)] afterSwitch_def
        nonNullProp_def catchBlock_def ensureErrorType_def finalWrite_def checkWrite_def
      split: option.split)

theorem handler_outcome_reported_witness:
  "handleMessage sampleEnv (sampleMessage ''workerInitRequest'' (Some ''bad'')) 0 =
     (Inr (),
      [Write \<lparr>IStreamingMessage.requestId = ''req-7'',
              contents = [''workerInitResponse'' \<mapsto>
                ResponseObject \<lparr>payload = ''default'',
                  result = Some \<lparr>status = Failure,
                    exception = Some \<lparr>RpcException.message = ''boom'',
                                       stackTrace = Some ''at handleEvent''\<rparr>\<rparr>\<rparr>]\<rparr>],
      0)
   \<and> handleMessage sampleEnv (sampleMessage ''invocationRequest'' (Some ''hello'')) 0 =
     (Inr (),
      [Write \<lparr>IStreamingMessage.requestId = ''req-7'',
              contents = [''invocationResponse'' \<mapsto>
                ResponseObject \<lparr>payload = ''hello'',
                  result = Some \<lparr>status = Success, exception = None\<rparr>\<rparr>]\<rparr>],
      1)"
proof -
  have t1: "map_of handlerTable ''workerInitRequest'' = Some WorkerInitHandler"
    and t2: "map_of handlerTable ''invocationRequest'' = Some InvocationHandler"
    by (simp_all add: handlerTable_def)
  have k1: "content (sampleMessage ''workerInitRequest'' (Some ''bad'')) = Some ''workerInitRequest''"
    and p1: "property (sampleMessage ''workerInitRequest'' (Some ''bad'')) ''workerInitRequest''
               = Some ''bad''"
    and k2: "content (sampleMessage ''invocationRequest'' (Some ''hello'')) = Some ''invocationRequest''"
    and p2: "property (sampleMessage ''invocationRequest'' (Some ''hello'')) ''invocationRequest''
               = Some ''hello''"
    by (simp_all add: sampleMessage_def)
  from handler_outcome_reported [OF k1 t1 p1, where e = sampleEnv and s = 0]
    handler_outcome_reported [OF k2 t2 p2, where e = sampleEnv and s = 0]
  show ?thesis
    by (simp add: sampleEnv_def sampleHandler_def sampleVerify_def sampleError_def
          sampleMessage_def logSystemError_def)
qed

text \<open>
  C2. Every message that a call of \<^verbatim>\<open>handleMessage\<close> writes to the stream has the request
  id of the inbound message, whatever the kind and whether \<^verbatim>\<open>handleEvent\<close> succeeds or throws.
  (The sample run is a \<^verbatim>\<open>workerStatusRequest\<close>.)
\<close>

theorem requestId_echoed:
  assumes "m \<in> set (written (fst (snd (handleMessage e inMsg s))))"
  shows "IStreamingMessage.requestId m = StreamingMessage.requestId inMsg"
proof -
  let ?out = "\<lparr>IStreamingMessage.requestId = StreamingMessage.requestId inMsg, contents = Map.empty\<rparr>"
  show ?thesis
  proof (cases "tryBlock e inMsg ?out s")
    case (Returned w s')
    with assms tryBlock_requestId [where e=e and inMsg=inMsg and outMsg="?out" and s=s] show ?thesis
      by (simp add: handleMessage_def)
  next
    case (Completed h out' s')
    with assms have "m \<in> set (written (snd (finalWrite e (Some h) out')))"
      by (simp add: handleMessage_def split: prod.splits)
    then have "m = out'" by (rule finalWrite_written)
    with Completed tryBlock_requestId [where e=e and inMsg=inMsg and outMsg="?out" and s=s] show ?thesis by simp
  next
    case (Thrown err eh rq out' w s')
    with tryBlock_requestId [where e=e and inMsg=inMsg and outMsg="?out" and s=s]
    have id: "IStreamingMessage.requestId out' = StreamingMessage.requestId inMsg"
      and w: "written w = []" by simp_all
    from assms Thrown w
    have "m \<in> set (written (snd (finalWrite e eh (snd (catchBlock err eh rq out')))))"
      using catchBlock_written [where err=err and eh=eh and rq=rq and out="out'"]
      by (simp add: handleMessage_def written_append split: prod.splits)
    then have "m = snd (catchBlock err eh rq out')" by (rule finalWrite_written)
    with id show ?thesis by (simp add: catchBlock_requestId)
  qed
qed

theorem requestId_echoed_witness:
  "\<lparr>IStreamingMessage.requestId = ''req-7'',
    contents = [''workerStatusResponse'' \<mapsto> (EmptyObject :: string ContentValue)]\<rparr>
     \<in> set (written (fst (snd (handleMessage sampleEnv
                                  (sampleMessage ''workerStatusRequest'' None) 0))))
   \<and> IStreamingMessage.requestId
        \<lparr>IStreamingMessage.requestId = ''req-7'',
         contents = [''workerStatusResponse'' \<mapsto> (EmptyObject :: string ContentValue)]\<rparr>
      = StreamingMessage.requestId (sampleMessage ''workerStatusRequest'' None)"
proof -
  have k: "content (sampleMessage ''workerStatusRequest'' None) = Some ''workerStatusRequest''"
    by (simp add: sampleMessage_def)
  have w: "\<lparr>IStreamingMessage.requestId = ''req-7'',
            contents = [''workerStatusResponse'' \<mapsto> (EmptyObject :: string ContentValue)]\<rparr>
     \<in> set (written (fst (snd (handleMessage sampleEnv
                                  (sampleMessage ''workerStatusRequest'' None) 0))))"
    unfolding handleMessage_status [OF k]
    by (simp add: sampleMessage_def sampleEnv_def sampleVerify_def)
  from w requestId_echoed [OF w] show ?thesis by (rule conjI)
qed

text \<open>
  C10. When a handler was chosen for the content kind but the content field is null or
  undefined, \<^verbatim>\<open>nonNullProp\<close> throws before \<^verbatim>\<open>handleEvent\<close> runs. The dispatcher still hands a
  message to the stream: it has the request id of the inbound message and no content field,
  hence no response and no result. The worker state is untouched.
\<close>

theorem missing_content_field_bare_reply:
  assumes "content inMsg = Some k" and "map_of handlerTable k = Some c"
    and "property inMsg k = None"
  defines "bare \<equiv> \<lparr>IStreamingMessage.requestId = StreamingMessage.requestId inMsg,
                    contents = Map.empty\<rparr>"
  shows "handleMessage e inMsg s =
           (case verify e bare of
              None \<Rightarrow> (Inr (), logSystemError (nonNullError e k) @ [Write bare], s)
            | Some msgError \<Rightarrow>
                (Inl (AzFuncSystemError (newStack e) msgError),
                 logSystemError (nonNullError e k)
                   @ [SystemError ''Worker malformed message'' msgError], s))"
  using assms(3)
  by (simp add: bare_def handleMessage_def tryBlock_handler [OF assms(1,2)] afterSwitch_def
        nonNullProp_def catchBlock_def ensureErrorType_def finalWrite_def checkWrite_def
      split: option.split)

theorem missing_content_field_bare_reply_witness:
  "handleMessage sampleEnv (sampleMessage ''functionLoadRequest'' None) 4 =
     (Inr (),
      [WorkerLog \<lparr>RpcLog.message = ''Expected value: functionLoadRequest'', level = Error,
                  logCategory = System\<rparr>,
       Write \<lparr>IStreamingMessage.requestId = ''req-7'', contents = Map.empty\<rparr>],
      4)"
proof -
  have t: "map_of handlerTable ''functionLoadRequest'' = Some FunctionLoadHandler"
    by (simp add: handlerTable_def)
  have k: "content (sampleMessage ''functionLoadRequest'' None) = Some ''functionLoadRequest''"
    and p: "property (sampleMessage ''functionLoadRequest'' None) ''functionLoadRequest'' = None"
    by (simp_all add: sampleMessage_def)
  from missing_content_field_bare_reply [OF k t p, where e = sampleEnv and s = 4]
  show ?thesis
    by (simp add: sampleEnv_def sampleVerify_def sampleMessage_def logSystemError_def
          AzFuncSystemError_def)
qed

subsection \<open>Kinds without a handler\<close>

text \<open>
  C4. A message whose content kind is none of the thirteen case labels (an absent kind
  included) makes the dispatcher log, through \<^verbatim>\<open>worker.log\<close>, the message of the system error
  at level Error in category System. Nothing is written to the stream, the worker state is
  untouched, and the promise is fulfilled, so the process goes on with the next message.
\<close>

theorem unknown_kind_logged_not_answered:
  assumes "content inMsg \<notin> Some ` set enumeratedKinds"
  shows "handleMessage e inMsg s =
           (Inr (),
            [WorkerLog \<lparr>RpcLog.message =
                          ''Worker had no handler for message '' @ [CHR 0x27]
                            @ eventNameText (content inMsg) @ [CHR 0x27],
                        level = Error, logCategory = System\<rparr>],
            s)"
  by (simp add: handleMessage_def tryBlock_unknown [OF assms] catchBlock_def ensureErrorType_def
        logSystemError_def AzFuncSystemError_def finalWrite_def)

theorem unknown_kind_logged_not_answered_witness:
  "handleMessage sampleEnv (sampleMessage ''bogusRequest'' (Some ''x'')) 5 =
     (Inr (),
      [WorkerLog \<lparr>RpcLog.message =
                    ''Worker had no handler for message '' @ [CHR 0x27] @ ''bogusRequest''
                      @ [CHR 0x27],
                  level = Error, logCategory = System\<rparr>],
      5)"
proof -
  have u: "content (sampleMessage ''bogusRequest'' (Some ''x'')) \<notin> Some ` set enumeratedKinds"
    by (simp add: sampleMessage_def enumeratedKinds_def handlerTable_def notImplemented_def
          image_iff)
  from unknown_kind_logged_not_answered [OF u, where e = sampleEnv and s = 5]
  show ?thesis by (simp add: sampleMessage_def eventNameText_def)
qed

text \<open>
  C5. For a \<^verbatim>\<open>workerStatusRequest\<close> the dispatcher writes, without calling a handler or reading
  the content field, a message with the request id and \<^verbatim>\<open>workerStatusResponse\<close> the empty
  object, which has no \<^verbatim>\<open>result\<close>; should the verifier refuse that message, the throw of the
  checked write is caught and logged. For a \<^verbatim>\<open>workerTerminate\<close> nothing is written to the
  stream, and when the content field is present \<^verbatim>\<open>terminateWorker\<close> runs on it and leaves the
  worker state.
\<close>

theorem status_acknowledged_terminate_silent:
  defines "ack \<equiv> \<lambda>inMsg. \<lparr>IStreamingMessage.requestId = StreamingMessage.requestId inMsg,
                          contents = [''workerStatusResponse'' \<mapsto> EmptyObject]\<rparr>"
  shows
    "(content inMsg = Some ''workerStatusRequest'' \<longrightarrow>
        handleMessage e inMsg s =
          (Inr (),
           (case verify e (ack inMsg) of
              None \<Rightarrow> [Write (ack inMsg)]
            | Some msgError \<Rightarrow>
                [SystemError ''Worker malformed message'' msgError,
                 WorkerLog \<lparr>RpcLog.message = msgError, level = Error, logCategory = System\<rparr>]),
           s))
     \<and> (content inMsg = Some ''workerTerminate'' \<longrightarrow>
          written (fst (snd (handleMessage e inMsg s))) = []
          \<and> (\<forall>msg r s'. property inMsg ''workerTerminate'' = Some msg \<longrightarrow>
                terminateWorker e msg s = (r, s') \<longrightarrow>
                handleMessage e inMsg s =
                  (Inr (), (case r of Inl err \<Rightarrow> logSystemError err | Inr _ \<Rightarrow> []), s')))"
  unfolding ack_def
  using handleMessage_status [of inMsg e s] handleMessage_terminate_written [of inMsg e s]
    handleMessage_terminate [of inMsg _ e s]
  by blast

theorem status_acknowledged_terminate_silent_witness:
  "handleMessage sampleEnv (sampleMessage ''workerStatusRequest'' None) 2 =
     (Inr (),
      [Write \<lparr>IStreamingMessage.requestId = ''req-7'',
              contents = [''workerStatusResponse'' \<mapsto> EmptyObject]\<rparr>],
      2)
   \<and> handleMessage sampleEnv (sampleMessage ''workerTerminate'' (Some ''bye'')) 2 =
        (Inr (), [], 0)"
  using
    status_acknowledged_terminate_silent
      [where inMsg = "sampleMessage ''workerStatusRequest'' None" and e = sampleEnv and s = 2]
    status_acknowledged_terminate_silent
      [where inMsg = "sampleMessage ''workerTerminate'' (Some ''bye'')" and e = sampleEnv and s = 2]
  by (simp add: sampleMessage_def sampleEnv_def sampleVerify_def)

text \<open>
  C9. A message whose content kind is one of \<^verbatim>\<open>closeSharedMemoryResourcesRequest\<close>,
  \<^verbatim>\<open>fileChangeEventRequest\<close>, \<^verbatim>\<open>functionLoadRequestCollection\<close>, \<^verbatim>\<open>invocationCancel\<close>,
  \<^verbatim>\<open>startStream\<close> or \<^verbatim>\<open>workerHeartbeat\<close> is dropped: the promise is fulfilled, nothing is
  written, nothing is logged, and the worker state is untouched.
\<close>

theorem unimplemented_kinds_discarded:
  assumes "content inMsg = Some k" and "k \<in> set notImplemented"
  shows "handleMessage e inMsg s = (Inr (), [], s)"
  using assms by (auto simp: handleMessage_def tryBlock_def notImplemented_def)

theorem unimplemented_kinds_discarded_witness:
  "handleMessage sampleEnv (sampleMessage ''invocationCancel'' (Some ''x'')) 3 = (Inr (), [], 3)"
proof -
  have k: "content (sampleMessage ''invocationCancel'' (Some ''x'')) = Some ''invocationCancel''"
    by (simp add: sampleMessage_def)
  have n: "''invocationCancel'' \<in> set notImplemented"
    by (simp add: notImplemented_def)
  show ?thesis
    by (rule unimplemented_kinds_discarded [OF k n])
qed

subsection \<open>The checked write\<close>

text \<open>
  C8. The write installed by \<^verbatim>\<open>setupEventStream\<close> verifies the message first. If the verifier
  reports a defect, \<^verbatim>\<open>systemError\<close> logs it on the console, an \<^verbatim>\<open>AzFuncSystemError\<close> is thrown
  and the original write is not called; otherwise the original write gets the message.
  Hence every message that \<^verbatim>\<open>handleMessage\<close> gets onto the stream passes the verifier.
\<close>

theorem checked_write_blocks_malformed:
  "(\<forall>msgError. vfy msg = Some msgError \<longrightarrow>
      checkWrite stk vfy msg =
        (Inl (AzFuncSystemError stk msgError),
         [SystemError ''Worker malformed message'' msgError]))
   \<and> (vfy msg = None \<longrightarrow> checkWrite stk vfy msg = (Inr (), [Write msg]))
   \<and> (\<forall>m \<in> set (written (fst (snd (handleMessage e inMsg s)))). verify e m = None)"
proof (intro conjI allI impI ballI)
  fix msgError assume "vfy msg = Some msgError"
  then show "checkWrite stk vfy msg =
      (Inl (AzFuncSystemError stk msgError), [SystemError ''Worker malformed message'' msgError])"
    by (simp add: checkWrite_def)
next
  assume "vfy msg = None"
  then show "checkWrite stk vfy msg = (Inr (), [Write msg])"
    by (simp add: checkWrite_def)
next
  fix m assume "m \<in> set (written (fst (snd (handleMessage e inMsg s))))"
  then show "verify e m = None" by (rule handleMessage_verified)
qed

theorem checked_write_blocks_malformed_witness:
  "sampleVerify \<lparr>IStreamingMessage.requestId = [], contents = Map.empty\<rparr>
     = Some ''requestId: string expected''
   \<and> checkWrite None sampleVerify \<lparr>IStreamingMessage.requestId = [], contents = Map.empty\<rparr>
     = (Inl (AzFuncSystemError None ''requestId: string expected''),
        [SystemError ''Worker malformed message'' ''requestId: string expected''])
   \<and> sampleVerify \<lparr>IStreamingMessage.requestId = ''req-7'', contents = Map.empty\<rparr> = None
   \<and> checkWrite None sampleVerify \<lparr>IStreamingMessage.requestId = ''req-7'', contents = Map.empty\<rparr>
     = (Inr (), [Write \<lparr>IStreamingMessage.requestId = ''req-7'', contents = Map.empty\<rparr>])
   \<and> written (fst (snd (handleMessage sampleEnv (sampleMessage ''workerStatusRequest'' None) 0)))
     = [\<lparr>IStreamingMessage.requestId = ''req-7'',
         contents = [''workerStatusResponse'' \<mapsto> EmptyObject]\<rparr>]
   \<and> verify sampleEnv \<lparr>IStreamingMessage.requestId = ''req-7'',
         contents = [''workerStatusResponse'' \<mapsto> EmptyObject]\<rparr> = None"
  using
    checked_write_blocks_malformed
      [where vfy = sampleVerify and stk = None
         and msg = "\<lparr>IStreamingMessage.requestId = [], contents = Map.empty\<rparr>"
         and e = sampleEnv and inMsg = "sampleMessage ''startStream'' None" and s = 0]
    checked_write_blocks_malformed
      [where vfy = sampleVerify and stk = None
         and msg = "\<lparr>IStreamingMessage.requestId = ''req-7'', contents = Map.empty\<rparr>"
         and e = sampleEnv and inMsg = "sampleMessage ''workerStatusRequest'' None" and s = 0]
    handleMessage_status
      [where inMsg = "sampleMessage ''workerStatusRequest'' None" and e = sampleEnv and s = 0]
  by (simp add: sampleVerify_def sampleMessage_def sampleEnv_def)

section \<open>Properties of the function registry\<close>

lemma registerFunction_indexed:
  assumes "hasIndexedFunctions channel"
  shows "registerFunction stringify uuid channel store md cb =
           (Inl (InternalException ''A function can only be registered during app startup.''),
            channel, store)"
  using assms by (simp add: registerFunction_def)

lemma mapEntries_total:
  assumes "list_all (\<lambda>x. \<not> isl (f x)) xs"
  shows "\<exists>ys. mapEntries f xs = Inr ys"
  using assms
proof (induction xs)
  case Nil
  then show ?case by simp
next
  case (Cons x xs)
  then obtain ys where "mapEntries f xs = Inr ys" by auto
  moreover from Cons.prems obtain y where "f x = Inr y" by (cases "f x") auto
  ultimately show ?case by simp
qed

lemma mapEntries_Inr:
  assumes "mapEntries f xs = Inr ys"
  shows "map f xs = map Inr ys"
  using assms
  by (induction xs arbitrary: ys) (auto split: sum.splits)

lemma registerFunction_startup:
  assumes "\<not> hasIndexedFunctions channel" and "store md = Some obj"
    and "bindings obj = Some entries"
    and "mapEntries (\<lambda>(n, b). convertToRawBinding stringify n b) entries = Inr raw"
  shows "registerFunction stringify uuid channel store md cb =
           (Inr (Disposable (disposeRegistration uuid)),
            channel\<lparr>functions := (functions channel)(uuid \<mapsto> \<lparr>metadata = md, callback = cb\<rparr>)\<rparr>,
            store(md \<mapsto> obj\<lparr>functionId := Some uuid, rawBindings := Some raw,
                               scriptFile := Some ''n/a''\<rparr>))"
  using assms by (simp add: registerFunction_def)

lemma registerFunction_Inr:
  assumes "registerFunction stringify uuid channel store md cb = (Inr token, channel', store')"
  shows "\<not> hasIndexedFunctions channel
       \<and> (\<exists>obj entries raw.
             store md = Some obj \<and> bindings obj = Some entries
           \<and> mapEntries (\<lambda>(n, b). convertToRawBinding stringify n b) entries = Inr raw
           \<and> token = Disposable (disposeRegistration uuid)
           \<and> channel' = channel\<lparr>functions := (functions channel)(uuid \<mapsto>
                           \<lparr>metadata = md, callback = cb\<rparr>)\<rparr>
           \<and> store' = store(md \<mapsto> obj\<lparr>functionId := Some uuid, rawBindings := Some raw,
                                          scriptFile := Some ''n/a''\<rparr>))"
  using assms
  by (auto simp: registerFunction_def Let_def split: if_splits option.splits sum.splits)

lemma registrable_startup:
  assumes "\<not> hasIndexedFunctions channel" and "registrable stringify store md"
  shows "\<exists>obj entries raw.
           store md = Some obj \<and> bindings obj = Some entries
         \<and> mapEntries (\<lambda>(n, b). convertToRawBinding stringify n b) entries = Inr raw
         \<and> registerFunction stringify uuid channel store md cb =
             (Inr (Disposable (disposeRegistration uuid)),
              channel\<lparr>functions := (functions channel)(uuid \<mapsto> \<lparr>metadata = md, callback = cb\<rparr>)\<rparr>,
              store(md \<mapsto> obj\<lparr>functionId := Some uuid, rawBindings := Some raw,
                                 scriptFile := Some ''n/a''\<rparr>))"
proof -
  from assms(2) obtain obj entries where
    o: "store md = Some obj" and b: "bindings obj = Some entries"
    and l: "list_all (\<lambda>(n, b). \<not> isl (convertToRawBinding stringify n b)) entries"
    by (auto simp: registrable_def split: option.splits)
  from l have "list_all (\<lambda>x. \<not> isl ((\<lambda>(n, b). convertToRawBinding stringify n b) x)) entries"
    by (simp add: case_prod_unfold)
  from mapEntries_total [OF this] obtain raw where
    r: "mapEntries (\<lambda>(n, b). convertToRawBinding stringify n b) entries = Inr raw" by blast
  from registerFunction_startup
         [where store = store and md = md and obj = obj, OF assms(1) o b r] o b r
  show ?thesis by blast
qed

lemma registrable_bindings:
  assumes "map_option bindings (store' r) = map_option bindings (store r)"
  shows "registrable stringify store' r = registrable stringify store r"
  using assms by (auto simp: registrable_def split: option.splits)

lemma registerAll_startup:
  assumes "\<not> hasIndexedFunctions channel"
    and "\<forall>(u, r, c) \<in> set calls. registrable stringify store r"
  shows "\<exists>tokens channel' store'.
           registerAll stringify calls channel store = (Inr tokens, channel', store')
           \<and> length tokens = length calls
           \<and> \<not> hasIndexedFunctions channel'
           \<and> dom (functions channel') = dom (functions channel) \<union> fst ` set calls
           \<and> (\<forall>k. k \<notin> fst ` set calls \<longrightarrow> functions channel' k = functions channel k)
           \<and> (\<forall>r. r \<notin> (fst \<circ> snd) ` set calls \<longrightarrow> store' r = store r)
           \<and> (\<forall>r. map_option bindings (store' r) = map_option bindings (store r))"
  using assms
proof (induction calls arbitrary: channel store)
  case Nil
  then show ?case by simp
next
  case (Cons call calls)
  obtain u r c where call: "call = (u, r, c)" by (cases call)
  from Cons.prems(2) have reg: "registrable stringify store r"
    and rest: "\<forall>(u, r, c) \<in> set calls. registrable stringify store r"
    by (simp_all add: call)
  from registrable_startup [OF Cons.prems(1) reg, of u c] obtain obj entries raw where
    o: "store r = Some obj"
    and f: "registerFunction stringify u channel store r c =
             (Inr (Disposable (disposeRegistration u)),
              channel\<lparr>functions := (functions channel)(u \<mapsto> \<lparr>metadata = r, callback = c\<rparr>)\<rparr>,
              store(r \<mapsto> obj\<lparr>functionId := Some u, rawBindings := Some raw,
                                scriptFile := Some ''n/a''\<rparr>))"
    by blast
  let ?c1 = "channel\<lparr>functions := (functions channel)(u \<mapsto> \<lparr>metadata = r, callback = c\<rparr>)\<rparr>"
  let ?s1 = "store(r \<mapsto> obj\<lparr>functionId := Some u, rawBindings := Some raw,
                                scriptFile := Some ''n/a''\<rparr>)"
  have b1: "\<And>x. map_option bindings (?s1 x) = map_option bindings (store x)"
    using o by simp
  have n1: "\<not> hasIndexedFunctions ?c1" using Cons.prems(1) by simp
  have rest1: "\<forall>(u, r, c) \<in> set calls. registrable stringify ?s1 r"
  proof (intro ballI)
    fix x assume x: "x \<in> set calls"
    obtain u' r' c' where x': "x = (u', r', c')" by (cases x)
    from rest x x' have "registrable stringify store r'" by auto
    with registrable_bindings [of ?s1 r' store stringify, OF b1]
    have "registrable stringify ?s1 r'" by simp
    then show "case x of (u, r, c) \<Rightarrow> registrable stringify ?s1 r" by (simp add: x')
  qed
  from Cons.IH [OF n1 rest1] obtain tokens channel' store' where
    ih: "registerAll stringify calls ?c1 ?s1 = (Inr tokens, channel', store')"
      "length tokens = length calls" "\<not> hasIndexedFunctions channel'"
      "dom (functions channel') = dom (functions ?c1) \<union> fst ` set calls"
      "\<forall>k. k \<notin> fst ` set calls \<longrightarrow> functions channel' k = functions ?c1 k"
      "\<forall>x. x \<notin> (fst \<circ> snd) ` set calls \<longrightarrow> store' x = ?s1 x"
      "\<forall>x. map_option bindings (store' x) = map_option bindings (?s1 x)"
    by blast
  have "registerAll stringify (call # calls) channel store
          = (Inr (Disposable (disposeRegistration u) # tokens), channel', store')"
    by (simp add: call f ih(1))
  moreover have "dom (functions channel') = dom (functions channel) \<union> fst ` set (call # calls)"
    using ih(4) by (auto simp: call)
  moreover have "\<forall>k. k \<notin> fst ` set (call # calls) \<longrightarrow> functions channel' k = functions channel k"
    using ih(5) by (simp add: call)
  moreover have "\<forall>x. x \<notin> (fst \<circ> snd) ` set (call # calls) \<longrightarrow> store' x = store x"
    using ih(6) by (simp add: call)
  moreover have "\<forall>x. map_option bindings (store' x) = map_option bindings (store x)"
    using ih(7) b1 by simp
  ultimately show ?case using ih(2,3) by simp
qed

lemma registerAll_entries:
  assumes "\<not> hasIndexedFunctions channel"
    and "\<forall>(u, r, c) \<in> set calls. registrable stringify store r"
    and "distinct (map fst calls)" and "distinct (map (fst \<circ> snd) calls)"
    and "registerAll stringify calls channel store = (Inr tokens, channel', store')"
    and "(u, r, c) \<in> set calls"
  shows "functions channel' u = Some \<lparr>metadata = r, callback = c\<rparr>
       \<and> (\<exists>obj. store' r = Some obj \<and> functionId obj = Some u)"
  using assms
proof (induction calls arbitrary: channel store tokens)
  case Nil
  then show ?case by simp
next
  case (Cons call calls)
  obtain u0 r0 c0 where call: "call = (u0, r0, c0)" by (cases call)
  from Cons.prems(2) have reg: "registrable stringify store r0"
    and rest: "\<forall>(u, r, c) \<in> set calls. registrable stringify store r"
    by (simp_all add: call)
  from registrable_startup [OF Cons.prems(1) reg, of u0 c0] obtain obj entries raw where
    o: "store r0 = Some obj"
    and f: "registerFunction stringify u0 channel store r0 c0 =
             (Inr (Disposable (disposeRegistration u0)),
              channel\<lparr>functions := (functions channel)(u0 \<mapsto> \<lparr>metadata = r0, callback = c0\<rparr>)\<rparr>,
              store(r0 \<mapsto> obj\<lparr>functionId := Some u0, rawBindings := Some raw,
                                 scriptFile := Some ''n/a''\<rparr>))"
    by blast
  let ?c1 = "channel\<lparr>functions := (functions channel)(u0 \<mapsto> \<lparr>metadata = r0, callback = c0\<rparr>)\<rparr>"
  let ?s1 = "store(r0 \<mapsto> obj\<lparr>functionId := Some u0, rawBindings := Some raw,
                                 scriptFile := Some ''n/a''\<rparr>)"
  have b1: "\<And>x. map_option bindings (?s1 x) = map_option bindings (store x)"
    using o by simp
  have n1: "\<not> hasIndexedFunctions ?c1" using Cons.prems(1) by simp
  have rest1: "\<forall>(u, r, c) \<in> set calls. registrable stringify ?s1 r"
  proof (intro ballI)
    fix x assume x: "x \<in> set calls"
    obtain u' r' c' where x': "x = (u', r', c')" by (cases x)
    from rest x x' have "registrable stringify store r'" by auto
    with registrable_bindings [of ?s1 r' store stringify, OF b1]
    have "registrable stringify ?s1 r'" by simp
    then show "case x of (u, r, c) \<Rightarrow> registrable stringify ?s1 r" by (simp add: x')
  qed
  from registerAll_startup [OF n1 rest1] obtain ts c' s' where
    tail: "registerAll stringify calls ?c1 ?s1 = (Inr ts, c', s')"
      "\<forall>k. k \<notin> fst ` set calls \<longrightarrow> functions c' k = functions ?c1 k"
      "\<forall>x. x \<notin> (fst \<circ> snd) ` set calls \<longrightarrow> s' x = ?s1 x"
    by blast
  from Cons.prems(5) have fin: "channel' = c'" "store' = s'"
    by (simp_all add: call f tail(1))
  with tail(1) have tail': "registerAll stringify calls ?c1 ?s1 = (Inr ts, channel', store')"
    by simp
  from Cons.prems(3,4) have d: "u0 \<notin> fst ` set calls" "distinct (map fst calls)"
      "r0 \<notin> (fst \<circ> snd) ` set calls" "distinct (map (fst \<circ> snd) calls)"
    by (simp_all add: call o_def)
  show ?case
  proof (cases "(u, r, c) = call")
    case True
    with call have e: "u = u0" "r = r0" "c = c0" by simp_all
    from tail(2) d(1) fin have "functions channel' u0 = Some \<lparr>metadata = r0, callback = c0\<rparr>"
      by simp
    moreover from tail(3) d(3) fin
    have "store' r0 = Some (obj\<lparr>functionId := Some u0, rawBindings := Some raw,
                                scriptFile := Some ''n/a''\<rparr>)" by simp
    ultimately show ?thesis by (simp add: e)
  next
    case False
    with Cons.prems(6) have "(u, r, c) \<in> set calls" by simp
    from Cons.IH [OF n1 rest1 d(2) d(4) tail' this] show ?thesis .
  qed
qed

lemma rawBindingObject_lowercase:
  "rawBindingObject n b =
     \<lparr>RawBinding.name = n,
      direction = map_option (\<lambda>d. case d of Direction_in \<Rightarrow> ''in'' | Direction_out \<Rightarrow> ''out''
                                 | Direction_inout \<Rightarrow> ''inout'') (RpcBindingInfo.direction b),
      bindingProps = RpcBindingInfo.bindingProps b\<rparr>"
  by (simp add: rawBindingObject_def split: option.split Direction.split)

lemma sample_registrable:
  "registrable sampleStringify sampleStore 0" "registrable sampleStringify sampleStore 1"
  by (simp_all add: registrable_def sampleStore_def sampleMetadata_def sampleStringify_def
        convertToRawBinding_def rawBindingObject_def)

lemma map_Inr_eq: "map Inr xs = map Inr ys \<Longrightarrow> xs = ys"
  by (simp add: inj_map_eq_map)







section \<open>Properties of the app-start context\<close>

text \<open>
  C6. \<^verbatim>\<open>startApp\<close> hands to the app-start hooks a context on which reading \<^verbatim>\<open>hookData\<close>
  returns \<^verbatim>\<open>channel.appLevelOnlyHookData\<close>, reading \<^verbatim>\<open>appHookData\<close> returns
  \<^verbatim>\<open>channel.appHookData\<close>, and assigning to either property throws the \<^verbatim>\<open>ReadOnlyError\<close> of
  that property. (In the sample run the only hook assigns to \<^verbatim>\<open>hookData\<close>.)
\<close>

theorem app_start_context_accessors:
  fixes channel :: "('c, 'd) WorkerChannel"
    and dir :: string
    and ctx :: "('d, 'v, ('c, 'd) WorkerChannel) AppStartContext"
  defines "ctx \<equiv> appStartContext dir"
  shows
  "get_hookData ctx channel = appLevelOnlyHookData channel
   \<and> get_appHookData ctx channel = appHookData channel
   \<and> set_hookData ctx obj channel = Inl (ReadOnlyError ''hookData'')
   \<and> set_appHookData ctx obj channel = Inl (ReadOnlyError ''appHookData'')
   \<and> (updatePackageJson dir ch = (Inr (), ch1) \<longrightarrow>
        loadEntryPointFile dir ch1 = (Inr (), ch2) \<longrightarrow>
          startApp updatePackageJson loadEntryPointFile executeHooks dir ch =
            executeHooks ''appStart'' ctx ch2)"
  by (simp add: ctx_def appStartContext_def startApp_def)

theorem app_start_context_accessors_witness:
  "get_hookData (appStartContext ''/app'' ::
       (string list, string list, (nat, string list) WorkerChannel) AppStartContext)
     sampleChannel = [''app only'']
   \<and> get_appHookData (appStartContext ''/app'' ::
       (string list, string list, (nat, string list) WorkerChannel) AppStartContext)
     sampleChannel = [''shared'']
   \<and> set_appHookData (appStartContext ''/app'' ::
       (string list, string list, (nat, string list) WorkerChannel) AppStartContext)
     [''hello'', ''world''] sampleChannel = Inl (ReadOnlyError ''appHookData'')
   \<and> startApp (\<lambda>dir channel. (Inr (), channel)) (\<lambda>dir channel. (Inr (), channel))
        sampleExecuteHooks ''/app'' sampleChannel
      = (Inl (ReadOnlyError ''hookData''), sampleChannel)"
  using
    app_start_context_accessors
      [where dir = "''/app''" and channel = sampleChannel and obj = "[''hello'', ''world'']"
         and updatePackageJson = "\<lambda>dir channel. (Inr (), channel)"
         and loadEntryPointFile = "\<lambda>dir channel. (Inr (), channel)"
         and executeHooks = sampleExecuteHooks and ch = sampleChannel and ?ch1.0 = sampleChannel
         and ?ch2.0 = sampleChannel]
  by (simp add: sampleExecuteHooks_def sampleChannel_def)

end
